theory Spec2Isabelle
  imports Main "HOL-Library.Word"
begin

unbundle bit_operations_syntax

section \<open>Machine types of the C source\<close>

text \<open>
  \<open>unsigned char\<close> is an 8-bit word. \<open>int\<close> is a 32-bit word read as two's complement:
  comparisons between \<open>int\<close>s are the signed ones (\<open><s\<close>), \<open>sint\<close> gives the value.
  Converting an \<open>unsigned char\<close> to \<open>int\<close> (integer promotion) is \<open>ucast\<close>, which
  zero-extends; storing an \<open>int\<close> into an \<open>unsigned char\<close> is \<open>ucast\<close> as well, which
  keeps the low 8 bits.
\<close>

type_synonym uchar = "8 word"
type_synonym c_int = "32 word"

text \<open>
  A buffer is the list of the bytes that the pointer may access, starting at the pointer.
  The C functions receive no size and check none: an access behind the last byte is
  undefined behaviour, which the model makes a result of its own, \<open>None\<close>.
\<close>

definition rd :: "uchar list \<Rightarrow> nat \<Rightarrow> uchar option" where
  "rd buffer i = (if i < length buffer then Some (buffer ! i) else None)"

definition wr :: "uchar list \<Rightarrow> nat \<Rightarrow> uchar \<Rightarrow> uchar list option" where
  "wr buffer i v = (if i < length buffer then Some (buffer[i := v]) else None)"

section \<open>The length codec of \<open>tool/util.c\<close>\<close>

text \<open>
  \<open>int get_length(const unsigned char *buffer, int *len)\<close>. The model takes the value
  that \<open>*len\<close> holds before the call and returns the pair of the function's result and
  the value that \<open>*len\<close> holds afterwards.
\<close>

definition get_length :: "uchar list \<Rightarrow> c_int \<Rightarrow> (c_int \<times> c_int) option" where
  "get_length buffer len =
     (case rd buffer 0 of
        None \<Rightarrow> None
      | Some b0 \<Rightarrow>
          if (ucast b0 :: c_int) <s 0x81 then Some (1, ucast b0)
          else if (ucast b0 :: c_int) AND 0x7f = 1 then
            (case rd buffer 1 of
               None \<Rightarrow> None
             | Some b1 \<Rightarrow> Some (2, ucast b1))
          else if (ucast b0 :: c_int) AND 0x7f = 2 then
            (case rd buffer 1 of
               None \<Rightarrow> None
             | Some b1 \<Rightarrow>
                 (case rd buffer 2 of
                    None \<Rightarrow> None
                  | Some b2 \<Rightarrow> Some (3, push_bit 8 (ucast b1) + ucast b2)))
          else Some (0, len))"

text \<open>
  \<open>int set_length(unsigned char *buffer, int length)\<close>. The result is the function's
  return value and the buffer after the writes. The shift \<open>length >> 8\<close> of a signed
  \<open>int\<close> is the arithmetic one.
\<close>

definition set_length :: "uchar list \<Rightarrow> c_int \<Rightarrow> (c_int \<times> uchar list) option" where
  "set_length buffer length' =
     (if length' <s 0x80 then
        (case wr buffer 0 (ucast length') of
           None \<Rightarrow> None
         | Some b \<Rightarrow> Some (1, b))
      else if length' <s 0xff then
        (case wr buffer 0 0x81 of
           None \<Rightarrow> None
         | Some b \<Rightarrow>
             (case wr b 1 (ucast length') of
                None \<Rightarrow> None
              | Some b' \<Rightarrow> Some (2, b')))
      else
        (case wr buffer 0 0x82 of
           None \<Rightarrow> None
         | Some b \<Rightarrow>
             (case wr b 1 (ucast (signed_drop_bit 8 length' AND 0xff)) of
                None \<Rightarrow> None
              | Some b' \<Rightarrow>
                  (case wr b' 2 (ucast (length' AND 0xff)) of
                     None \<Rightarrow> None
                   | Some b'' \<Rightarrow> Some (3, b'')))))"

section \<open>Enumerations of the command line\<close>

text \<open>
  The enumerations \<open>enum_slot\<close>, \<open>enum_hash\<close>, \<open>enum_algorithm\<close>, \<open>enum_pin_policy\<close> and
  \<open>enum_touch_policy\<close> are declared in \<open>cmdline.h\<close>, which is not among the sources; the
  enumerators are the ones that the \<open>switch\<close> statements of \<open>util.c\<close> name. An object of
  a C enumeration type can hold any value of the underlying integer type, so each datatype
  has one more constructor for the values that are none of the named enumerators: the ones
  that only \<open>default:\<close> catches.
\<close>

datatype enum_slot =
    slot_arg_9a | slot_arg_9c | slot_arg_9d | slot_arg_9e
  | slot_arg_82 | slot_arg_83 | slot_arg_84 | slot_arg_85 | slot_arg_86
  | slot_arg_87 | slot_arg_88 | slot_arg_89 | slot_arg_8a | slot_arg_8b
  | slot_arg_8c | slot_arg_8d | slot_arg_8e | slot_arg_8f | slot_arg_90
  | slot_arg_91 | slot_arg_92 | slot_arg_93 | slot_arg_94 | slot_arg_95
  | slot__NULL
  | slot_unlisted c_int

datatype enum_hash =
    hash_arg_SHA1 | hash_arg_SHA256 | hash_arg_SHA384 | hash_arg_SHA512
  | hash__NULL
  | hash_unlisted c_int

datatype enum_algorithm =
    algorithm_arg_RSA1024 | algorithm_arg_RSA2048 | algorithm_arg_ECCP256
  | algorithm_arg_ECCP384
  | algorithm__NULL
  | algorithm_unlisted c_int

datatype enum_pin_policy =
    pin_policy_arg_never | pin_policy_arg_once | pin_policy_arg_always
  | pin_policy__NULL
  | pin_policy_unlisted c_int

datatype enum_touch_policy =
    touch_policy_arg_never | touch_policy_arg_always
  | touch_policy__NULL
  | touch_policy_unlisted c_int

text \<open>
  The constants of \<open>ykpiv.h\<close> that \<open>util.c\<close> returns. The header is not among the
  sources, so the functions take the constants as a parameter.
\<close>

record ykpiv_h =
  YKPIV_OBJ_AUTHENTICATION :: c_int
  YKPIV_OBJ_SIGNATURE :: c_int
  YKPIV_OBJ_KEY_MANAGEMENT :: c_int
  YKPIV_OBJ_CARD_AUTH :: c_int
  YKPIV_OBJ_RETIRED1 :: c_int
  YKPIV_OBJ_RETIRED2 :: c_int
  YKPIV_OBJ_RETIRED3 :: c_int
  YKPIV_OBJ_RETIRED4 :: c_int
  YKPIV_OBJ_RETIRED5 :: c_int
  YKPIV_OBJ_RETIRED6 :: c_int
  YKPIV_OBJ_RETIRED7 :: c_int
  YKPIV_OBJ_RETIRED8 :: c_int
  YKPIV_OBJ_RETIRED9 :: c_int
  YKPIV_OBJ_RETIRED10 :: c_int
  YKPIV_OBJ_RETIRED11 :: c_int
  YKPIV_OBJ_RETIRED12 :: c_int
  YKPIV_OBJ_RETIRED13 :: c_int
  YKPIV_OBJ_RETIRED14 :: c_int
  YKPIV_OBJ_RETIRED15 :: c_int
  YKPIV_OBJ_RETIRED16 :: c_int
  YKPIV_OBJ_RETIRED17 :: c_int
  YKPIV_OBJ_RETIRED18 :: c_int
  YKPIV_OBJ_RETIRED19 :: c_int
  YKPIV_OBJ_RETIRED20 :: c_int
  YKPIV_ALGO_RSA1024 :: uchar
  YKPIV_ALGO_RSA2048 :: uchar
  YKPIV_ALGO_ECCP256 :: uchar
  YKPIV_ALGO_ECCP384 :: uchar
  YKPIV_PINPOLICY_NEVER :: uchar
  YKPIV_PINPOLICY_ONCE :: uchar
  YKPIV_PINPOLICY_ALWAYS :: uchar
  YKPIV_TOUCHPOLICY_NEVER :: uchar
  YKPIV_TOUCHPOLICY_ALWAYS :: uchar

section \<open>The lookup functions of \<open>tool/util.c\<close>\<close>

text \<open>\<open>int get_object_id(enum enum_slot slot)\<close>.\<close>

fun get_object_id :: "ykpiv_h \<Rightarrow> enum_slot \<Rightarrow> c_int" where
  "get_object_id k slot_arg_9a = YKPIV_OBJ_AUTHENTICATION k"
| "get_object_id k slot_arg_9c = YKPIV_OBJ_SIGNATURE k"
| "get_object_id k slot_arg_9d = YKPIV_OBJ_KEY_MANAGEMENT k"
| "get_object_id k slot_arg_9e = YKPIV_OBJ_CARD_AUTH k"
| "get_object_id k slot_arg_82 = YKPIV_OBJ_RETIRED1 k"
| "get_object_id k slot_arg_83 = YKPIV_OBJ_RETIRED2 k"
| "get_object_id k slot_arg_84 = YKPIV_OBJ_RETIRED3 k"
| "get_object_id k slot_arg_85 = YKPIV_OBJ_RETIRED4 k"
| "get_object_id k slot_arg_86 = YKPIV_OBJ_RETIRED5 k"
| "get_object_id k slot_arg_87 = YKPIV_OBJ_RETIRED6 k"
| "get_object_id k slot_arg_88 = YKPIV_OBJ_RETIRED7 k"
| "get_object_id k slot_arg_89 = YKPIV_OBJ_RETIRED8 k"
| "get_object_id k slot_arg_8a = YKPIV_OBJ_RETIRED9 k"
| "get_object_id k slot_arg_8b = YKPIV_OBJ_RETIRED10 k"
| "get_object_id k slot_arg_8c = YKPIV_OBJ_RETIRED11 k"
| "get_object_id k slot_arg_8d = YKPIV_OBJ_RETIRED12 k"
| "get_object_id k slot_arg_8e = YKPIV_OBJ_RETIRED13 k"
| "get_object_id k slot_arg_8f = YKPIV_OBJ_RETIRED14 k"
| "get_object_id k slot_arg_90 = YKPIV_OBJ_RETIRED15 k"
| "get_object_id k slot_arg_91 = YKPIV_OBJ_RETIRED16 k"
| "get_object_id k slot_arg_92 = YKPIV_OBJ_RETIRED17 k"
| "get_object_id k slot_arg_93 = YKPIV_OBJ_RETIRED18 k"
| "get_object_id k slot_arg_94 = YKPIV_OBJ_RETIRED19 k"
| "get_object_id k slot_arg_95 = YKPIV_OBJ_RETIRED20 k"
| "get_object_id k slot__NULL = 0"
| "get_object_id k (slot_unlisted v) = 0"

text \<open>\<open>unsigned char get_piv_algorithm(enum enum_algorithm algorithm)\<close>.\<close>

fun get_piv_algorithm :: "ykpiv_h \<Rightarrow> enum_algorithm \<Rightarrow> uchar" where
  "get_piv_algorithm k algorithm_arg_RSA2048 = YKPIV_ALGO_RSA2048 k"
| "get_piv_algorithm k algorithm_arg_RSA1024 = YKPIV_ALGO_RSA1024 k"
| "get_piv_algorithm k algorithm_arg_ECCP256 = YKPIV_ALGO_ECCP256 k"
| "get_piv_algorithm k algorithm_arg_ECCP384 = YKPIV_ALGO_ECCP384 k"
| "get_piv_algorithm k algorithm__NULL = 0"
| "get_piv_algorithm k (algorithm_unlisted v) = 0"

text \<open>\<open>unsigned char get_pin_policy(enum enum_pin_policy policy)\<close>.\<close>

fun get_pin_policy :: "ykpiv_h \<Rightarrow> enum_pin_policy \<Rightarrow> uchar" where
  "get_pin_policy k pin_policy_arg_never = YKPIV_PINPOLICY_NEVER k"
| "get_pin_policy k pin_policy_arg_once = YKPIV_PINPOLICY_ONCE k"
| "get_pin_policy k pin_policy_arg_always = YKPIV_PINPOLICY_ALWAYS k"
| "get_pin_policy k pin_policy__NULL = 0"
| "get_pin_policy k (pin_policy_unlisted v) = 0"

text \<open>\<open>unsigned char get_touch_policy(enum enum_touch_policy policy)\<close>.\<close>

fun get_touch_policy :: "ykpiv_h \<Rightarrow> enum_touch_policy \<Rightarrow> uchar" where
  "get_touch_policy k touch_policy_arg_never = YKPIV_TOUCHPOLICY_NEVER k"
| "get_touch_policy k touch_policy_arg_always = YKPIV_TOUCHPOLICY_ALWAYS k"
| "get_touch_policy k touch_policy__NULL = 0"
| "get_touch_policy k (touch_policy_unlisted v) = 0"

section \<open>Hash kinds and their DigestInfo headers\<close>

type_synonym size_t = "64 word"

definition sha1oid :: "uchar list" where
  "sha1oid = [
     0x30, 0x21, 0x30, 0x09, 0x06, 0x05, 0x2B, 0x0E, 0x03, 0x02, 0x1A, 0x05, 0x00,
     0x04, 0x14]"

definition sha256oid :: "uchar list" where
  "sha256oid = [
     0x30, 0x31, 0x30, 0x0D, 0x06, 0x09, 0x60, 0x86, 0x48, 0x01, 0x65, 0x03, 0x04,
     0x02, 0x01, 0x05, 0x00, 0x04, 0x20]"

definition sha384oid :: "uchar list" where
  "sha384oid = [
     0x30, 0x41, 0x30, 0x0D, 0x06, 0x09, 0x60, 0x86, 0x48, 0x01, 0x65, 0x03, 0x04,
     0x02, 0x02, 0x05, 0x00, 0x04, 0x30]"

definition sha512oid :: "uchar list" where
  "sha512oid = [
     0x30, 0x51, 0x30, 0x0D, 0x06, 0x09, 0x60, 0x86, 0x48, 0x01, 0x65, 0x03, 0x04,
     0x02, 0x03, 0x05, 0x00, 0x04, 0x40]"

text \<open>
  The digest objects that OpenSSL's \<open>EVP_sha1()\<close>, \<open>EVP_sha256()\<close>, \<open>EVP_sha384()\<close> and
  \<open>EVP_sha512()\<close> return; a result of type \<open>const EVP_MD *\<close> is \<open>Some\<close> of one of them, or
  \<open>None\<close> for \<open>NULL\<close>.
\<close>

datatype EVP_MD = EVP_sha1 | EVP_sha256 | EVP_sha384 | EVP_sha512

text \<open>
  An output parameter is the cell that the pointer refers to: \<open>None\<close> when the caller
  passes \<open>NULL\<close>, \<open>Some v\<close> when the cell holds \<open>v\<close>. \<open>store_oid\<close> is the block
  \<open>if(oid) { *oid = table; *oid_len = sizeof(table); }\<close>: it tests \<open>oid\<close> only, so a
  call with \<open>oid\<close> set and \<open>oid_len\<close> \<open>NULL\<close> writes through a null pointer, which is
  undefined behaviour (\<open>None\<close>).
\<close>

definition store_oid ::
  "uchar list \<Rightarrow> uchar list option \<Rightarrow> size_t option
     \<Rightarrow> (uchar list option \<times> size_t option) option" where
  "store_oid table oid oid_len =
     (case oid of
        None \<Rightarrow> Some (oid, oid_len)
      | Some _ \<Rightarrow>
          (case oid_len of
             None \<Rightarrow> None
           | Some _ \<Rightarrow> Some (Some table, Some (of_nat (length table)))))"

text \<open>
  \<open>const EVP_MD *get_hash(enum enum_hash hash, const unsigned char **oid, size_t *oid_len)\<close>.
  The result is the returned pointer with the two cells after the call.
\<close>

fun get_hash ::
  "enum_hash \<Rightarrow> uchar list option \<Rightarrow> size_t option
     \<Rightarrow> (EVP_MD option \<times> uchar list option \<times> size_t option) option" where
  "get_hash hash_arg_SHA1 oid oid_len =
     map_option (Pair (Some EVP_sha1)) (store_oid sha1oid oid oid_len)"
| "get_hash hash_arg_SHA256 oid oid_len =
     map_option (Pair (Some EVP_sha256)) (store_oid sha256oid oid oid_len)"
| "get_hash hash_arg_SHA384 oid oid_len =
     map_option (Pair (Some EVP_sha384)) (store_oid sha384oid oid oid_len)"
| "get_hash hash_arg_SHA512 oid oid_len =
     map_option (Pair (Some EVP_sha512)) (store_oid sha512oid oid oid_len)"
| "get_hash hash__NULL oid oid_len = Some (None, oid, oid_len)"
| "get_hash (hash_unlisted v) oid oid_len = Some (None, oid, oid_len)"

section \<open>\<open>prepare_rsa_signature\<close> of \<open>tool/util.c\<close>\<close>

text \<open>
  The \<open>X509_SIG\<close> that the function fills in, with the fields it sets: the algorithm
  object, the parameter's type and value, and the digest's bytes and length. Of the array
  \<open>data[1024]\<close> only the first \<open>in_len\<close> bytes are written, and they are the ones that
  the digest's length covers.
\<close>

record 'obj X509_SIG =
  algor_algorithm :: 'obj
  algor_parameter_type :: c_int
  algor_parameter_value_ptr :: "unit option"
  digest_data :: "uchar list"
  digest_length :: c_int

text \<open>
  What the function takes from OpenSSL, which is not part of this code: the table
  \<open>OBJ_nid2obj\<close>, the constant \<open>V_ASN1_NULL\<close>, and the encoder \<open>i2d_X509_SIG\<close>, which
  gets the structure and gives its \<open>int\<close> result (the length of the encoding, or a
  negative number for an error) together with the bytes that it writes, starting at the
  pointer it is given.
\<close>

record 'obj openssl =
  OBJ_nid2obj :: "c_int \<Rightarrow> 'obj"
  V_ASN1_NULL :: c_int
  i2d_X509_SIG :: "'obj X509_SIG \<Rightarrow> c_int \<times> uchar list"

text \<open>
  \<open>bool prepare_rsa_signature(const unsigned char *in, unsigned int in_len,
  unsigned char *out, unsigned int *out_len, int nid)\<close>. The \<open>memcpy\<close> of \<open>in_len\<close> bytes
  into \<open>data[1024]\<close> is undefined behaviour when \<open>in_len\<close> exceeds 1024 or the bytes
  that \<open>in\<close> points to. The encoder writes at \<open>out\<close>, which is a buffer like the others:
  the function receives no size for it, and an encoding longer than the buffer is written
  behind its end, which is undefined behaviour as well. The encoder's result is stored in
  \<open>*out_len\<close> unchecked. The result of the model is the returned flag, the output buffer
  and \<open>*out_len\<close>.
\<close>

definition prepare_rsa_signature ::
  "'obj openssl \<Rightarrow> uchar list \<Rightarrow> 32 word \<Rightarrow> uchar list \<Rightarrow> c_int
     \<Rightarrow> (bool \<times> uchar list \<times> 32 word) option" where
  "prepare_rsa_signature ssl in' in_len out nid =
     (if 1024 < unat in_len \<or> length in' < unat in_len then None
      else
        let data = take (unat in_len) in';
            digestInfo = \<lparr>
              algor_algorithm = OBJ_nid2obj ssl nid,
              algor_parameter_type = V_ASN1_NULL ssl,
              algor_parameter_value_ptr = None,
              digest_data = data,
              digest_length = in_len \<rparr>;
            (ret, written) = i2d_X509_SIG ssl digestInfo
        in if length out < length written then None
           else Some (True, written @ drop (length written) out, ret))"

section \<open>The DigestInfo builder\<close>

text \<open>
  Modelled from the spec: the code that puts the header of \<open>get_hash\<close> in front of the
  digest is in the callers of \<open>get_hash\<close>, which are not among the sources. Section 4.2
  of the specification describes it: one static precomputed template for each supported
  hash kind, the header bytes up to but excluding the digest, and the caller's digest
  bytes concatenated onto that header. The header is the one that \<open>get_hash\<close> stores
  through \<open>oid\<close> and \<open>oid_len\<close>; a hash kind without a header gives no DigestInfo.
\<close>

definition digest_info :: "enum_hash \<Rightarrow> uchar list \<Rightarrow> uchar list option" where
  "digest_info hash digest =
     (case get_hash hash (Some []) (Some 0) of
        Some (Some md, Some oid, Some oid_len) \<Rightarrow> Some (take (unat oid_len) oid @ digest)
      | _ \<Rightarrow> None)"

section \<open>\<open>do_get_public_key\<close> of the PKCS#11 module\<close>

datatype CK_RV = CKR_OK | CKR_FUNCTION_FAILED

type_synonym CK_ULONG = "64 word"

text \<open>
  The values of \<open>key->type\<close> that the \<open>switch\<close> names, and the others. The key material
  behind the handle is opaque.
\<close>

datatype pkey_type = EVP_PKEY_RSA | EVP_PKEY_RSA2 | EVP_PKEY_EC | EVP_PKEY_unlisted c_int

record 'k EVP_PKEY =
  type :: pkey_type
  pkey :: 'k

text \<open>
  \<open>CK_RV do_get_public_key(EVP_PKEY *key, CK_BYTE_PTR data, CK_ULONG_PTR len)\<close>. The
  parameter \<open>EC_POINT_point2oct\<close> stands for OpenSSL's serialisation of the key's public
  point into \<open>data\<close>, of capacity \<open>*len\<close>: it gives the number of bytes (0 on failure) and
  the buffer as it left it. The RSA branch calls \<open>EVP_PKEY_get1_RSA\<close> and drops the result.
  The result is the returned status, the buffer and \<open>*len\<close>.
\<close>

definition do_get_public_key ::
  "('k EVP_PKEY \<Rightarrow> uchar list \<Rightarrow> CK_ULONG \<Rightarrow> CK_ULONG \<times> uchar list)
     \<Rightarrow> 'k EVP_PKEY \<Rightarrow> uchar list \<Rightarrow> CK_ULONG \<Rightarrow> CK_RV \<times> uchar list \<times> CK_ULONG" where
  "do_get_public_key EC_POINT_point2oct key data len =
     (case type key of
        EVP_PKEY_RSA \<Rightarrow> (CKR_FUNCTION_FAILED, data, len)
      | EVP_PKEY_RSA2 \<Rightarrow> (CKR_FUNCTION_FAILED, data, len)
      | EVP_PKEY_EC \<Rightarrow>
          (let (n, data') = EC_POINT_point2oct key data len
           in if n = 0 then (CKR_FUNCTION_FAILED, data', n) else (CKR_OK, data', n))
      | EVP_PKEY_unlisted _ \<Rightarrow> (CKR_FUNCTION_FAILED, data, len))"

section \<open>Facts about the machine types\<close>

lemma uint_uchar_less: "uint (b::uchar) < 256"
  using uint_bounded [of b] by simp

lemma uint_promote: "uint (ucast (b::uchar) :: c_int) = uint b"
  by (simp add: uint_up_ucast is_up)

lemma sint_small: "0 \<le> k \<Longrightarrow> k < 2147483648 \<Longrightarrow> signed_take_bit 31 (k::int) = k"
  by (rule signed_take_bit_int_eq_self) simp_all

lemma sint_promote: "sint (ucast (b::uchar) :: c_int) = uint b"
proof -
  have "uint b < 2147483648" using uint_uchar_less [of b] by simp
  then show ?thesis
    by (simp add: signed_ucast_eq sint_small)
qed

lemma promote_sless: "((ucast (b::uchar) :: c_int) <s 0x81) = (b < 0x81)"
  by (simp add: word_sless_alt sint_promote word_less_alt)

lemma promote_and: "(ucast (b::uchar) :: c_int) AND 0x7f = ucast (b AND 0x7f)"
  by (simp add: word_eq_iff_unsigned [where ?'a = int] unsigned_and_eq uint_promote)

lemma promote_eq: "((ucast (a::uchar) :: c_int) = ucast b) = (a = b)"
  by (simp add: word_eq_iff_unsigned [where ?'a = int] uint_promote)

lemma promote_and1: "((ucast (b::uchar) :: c_int) AND 0x7f = 1) = (b AND 0x7f = 1)"
  using promote_eq [of "b AND 0x7f" 1] by (simp add: promote_and)

lemma promote_and2: "((ucast (b::uchar) :: c_int) AND 0x7f = 2) = (b AND 0x7f = 2)"
  using promote_eq [of "b AND 0x7f" 2] by (simp add: promote_and)

lemma sint_nonneg_uint:
  assumes "0 \<le> sint (L::c_int)"
  shows "sint L = uint L"
proof (cases "uint L < 2147483648")
  case True
  moreover have "- (2 ^ 31) \<le> uint L"
    by (rule order_trans [of _ 0]) simp_all
  ultimately have "signed_take_bit 31 (uint L) = uint L"
    by (intro signed_take_bit_int_eq_self) simp_all
  then show ?thesis by (simp add: sint_uint)
next
  case False
  then have "2 ^ 31 \<le> uint L" by simp
  then have "signed_take_bit 31 (uint L) \<le> uint L - 2 ^ Suc 31"
    by (rule signed_take_bit_int_less_eq)
  then have "sint L \<le> uint L - 2 ^ Suc 31"
    by (simp only: sint_uint) simp
  moreover have "uint L < 2 ^ Suc 31" using uint_bounded [of L] by simp
  ultimately have "sint L < 0" by linarith
  with assms show ?thesis by simp
qed

lemma c_int_less_2p:
  assumes "0 \<le>s (L::c_int)" and "sint L < 2 ^ n" and "n < 32"
  shows "take_bit n L = L"
proof -
  from assms(1) have "0 \<le> sint L" by (simp add: word_sle_eq)
  then have "sint L = uint L" by (rule sint_nonneg_uint)
  with assms(2) have "uint L < 2 ^ n" by simp
  with assms(3) have "L < 2 ^ n" by (simp add: word_2p_lem word_size)
  then have "L AND mask n = L" by (rule less_mask_eq)
  then show ?thesis by (simp add: take_bit_eq_mask)
qed

lemma ff_mask: "(0xff::c_int) = mask 8"
  by (simp add: mask_numeral)

lemma hi_bits:
  "bit (ucast (ucast (signed_drop_bit 8 (L::c_int) AND 0xff) :: uchar) :: c_int) m
     = (m < 8 \<and> bit L (m + 8))"
  unfolding ff_mask by (auto simp add: bit_simps add.commute)

lemma lo_bits:
  "bit (ucast (ucast ((L::c_int) AND 0xff) :: uchar) :: c_int) m = (m < 8 \<and> bit L m)"
  unfolding ff_mask by (auto simp add: bit_simps)

text \<open>Whatever \<open>L\<close> is, the two bytes of the three-byte form hold its low 16 bits.\<close>

lemma be16:
  "push_bit 8 (ucast (ucast (signed_drop_bit 8 (L::c_int) AND 0xff) :: uchar) :: c_int)
     + ucast (ucast (L AND 0xff) :: uchar) = take_bit 16 L"
proof -
  define h :: c_int where "h = ucast (ucast (signed_drop_bit 8 L AND 0xff) :: uchar)"
  define l :: c_int where "l = ucast (ucast (L AND 0xff) :: uchar)"
  have hb: "bit h m = (m < 8 \<and> bit L (m + 8))" for m
    unfolding h_def by (rule hi_bits)
  have lb: "bit l m = (m < 8 \<and> bit L m)" for m
    unfolding l_def by (rule lo_bits)
  have "push_bit 8 h + l = push_bit 8 h OR l"
    by (rule disjunctive_add) (auto simp add: bit_push_bit_iff lb)
  also have "\<dots> = take_bit 16 L"
    by (rule bit_eqI) (auto simp add: bit_or_iff bit_push_bit_iff bit_take_bit_iff hb lb)
  finally show ?thesis
    unfolding h_def l_def .
qed

lemma promote_narrow:
  assumes "0 \<le>s (L::c_int)" and "L <s 0x100"
  shows "(ucast (ucast L :: uchar) :: c_int) = L"
proof -
  from assms(2) have "sint L < 2 ^ 8" by (simp add: word_sless_alt)
  with assms(1) have "take_bit 8 L = L" by (rule c_int_less_2p) simp
  moreover have "(ucast (ucast L :: uchar) :: c_int) = take_bit 8 L"
    by (rule bit_eqI) (auto simp add: bit_simps)
  ultimately show ?thesis by simp
qed

lemma low_byte: "(ucast ((L::c_int) AND 0xff) :: uchar) = ucast L"
  unfolding ff_mask by (rule bit_eqI) (auto simp add: bit_simps)

lemma high_byte:
  "(ucast (signed_drop_bit 8 (L::c_int) AND 0xff) :: uchar) = ucast (drop_bit 8 L)"
  unfolding ff_mask by (rule bit_eqI) (auto simp add: bit_simps)

lemma high_byte_arith: "(ucast (signed_drop_bit 8 (L::c_int)) :: uchar) = ucast (drop_bit 8 L)"
  by (rule bit_eqI) (auto simp add: bit_simps)

text \<open>The bytes stored for an \<open>int\<close>, as numbers.\<close>

lemma byte_values:
  "uint (ucast (L::c_int) :: uchar) = uint L mod 256 \<and>
   uint (ucast (drop_bit 8 L) :: uchar) = uint L div 256 mod 256"
  by (simp add: unsigned_ucast_eq unsigned_drop_bit_eq take_bit_eq_mod drop_bit_eq_div
      uint_div_distrib)

text \<open>The value of \<open>(buffer[1] << 8) + buffer[2]\<close>; the sum stays far below \<open>INT_MAX\<close>.\<close>

lemma sint_be16:
  "sint (push_bit 8 (ucast (b1::uchar)) + ucast (b2::uchar) :: c_int) = 256 * uint b1 + uint b2"
proof -
  have b: "uint b1 < 256" "uint b2 < 256" "0 \<le> uint b1" "0 \<le> uint b2"
    using uint_uchar_less [of b1] uint_uchar_less [of b2] by simp_all
  then have s: "256 * uint b1 + uint b2 < 65536" "0 \<le> 256 * uint b1 + uint b2" by linarith+
  have "uint (push_bit 8 (ucast b1 :: c_int)) = take_bit 32 (256 * uint b1)"
    by (simp only: unsigned_push_bit_eq uint_promote) (simp add: push_bit_eq_mult mult.commute)
  also have "\<dots> = 256 * uint b1"
    using b by (intro take_bit_int_eq_self) simp_all
  finally have h: "uint (push_bit 8 (ucast b1 :: c_int)) = 256 * uint b1" .
  have "uint (push_bit 8 (ucast b1) + ucast b2 :: c_int) = (256 * uint b1 + uint b2) mod 2 ^ 32"
    by (simp only: uint_word_ariths h uint_promote) simp
  also have "\<dots> = 256 * uint b1 + uint b2"
    using s by simp
  finally have u: "uint (push_bit 8 (ucast b1) + ucast b2 :: c_int) = 256 * uint b1 + uint b2" .
  show ?thesis
    using s by (simp only: sint_uint u) (simp add: sint_small)
qed

lemma drop8_small:
  assumes "0 \<le>s (L::c_int)" and "L \<le>s 0xFF"
  shows "(ucast (drop_bit 8 L) :: uchar) = 0"
proof -
  from assms(2) have "sint L < 2 ^ 8" by (simp add: word_sle_eq)
  with assms(1) have "take_bit 8 L = L" by (rule c_int_less_2p) simp
  then have "drop_bit 8 L = drop_bit 8 (take_bit 8 L)" by simp
  also have "\<dots> = 0" by (rule bit_eqI) (simp add: bit_simps)
  finally show ?thesis by simp
qed

lemma zeros32:
  "replicate 32 (0::uchar) =
     [0, 0, 0, 0, 0, 0, 0, 0, 0, 0, 0, 0, 0, 0, 0, 0,
      0, 0, 0, 0, 0, 0, 0, 0, 0, 0, 0, 0, 0, 0, 0, 0]"
  by (simp add: numeral_eq_Suc)

lemma header_SHA256: "digest_info hash_arg_SHA256 digest = Some (sha256oid @ digest)"
  by (simp add: digest_info_def store_oid_def sha256oid_def)

section \<open>The length codec: encoder\<close>

text \<open>
  C2. For every \<open>int\<close> \<open>L\<close>, \<open>set_length\<close> writes exactly these bytes at the start of
  the buffer, leaves the bytes behind them as they were, and returns their count: below
  \<open>0x80\<close> the single byte \<open>L\<close>; from \<open>0x80\<close> and below \<open>0xFF\<close> the two bytes
  \<open>0x81, L\<close>; from \<open>0xFF\<close> on the three bytes \<open>0x82\<close>, bits 8 to 15 of \<open>L\<close>, bits 0 to 7
  of \<open>L\<close>. The length \<open>0xFF\<close> takes the three-byte branch: \<open>0x82, 0x00, 0xFF\<close>. The byte
  written for \<open>L\<close> is \<open>L\<close> converted to \<open>unsigned char\<close>, which is \<open>L mod 256\<close>, and
  the high byte is \<open>L div 256 mod 256\<close>. The buffer has room for the bytes of the branch
  taken.
\<close>

theorem set_length_bytes:
  "(L <s 0x80 \<longrightarrow> set_length (b0 # rest) L = Some (1, ucast L # rest)) \<and>
   (\<not> L <s 0x80 \<and> L <s 0xFF \<longrightarrow>
      set_length (b0 # b1 # rest) L = Some (2, 0x81 # ucast L # rest)) \<and>
   (\<not> L <s 0xFF \<longrightarrow>
      set_length (b0 # b1 # b2 # rest) L
        = Some (3, 0x82 # ucast (drop_bit 8 L) # ucast L # rest)) \<and>
   set_length (b0 # b1 # b2 # rest) 0xFF = Some (3, 0x82 # 0x00 # 0xFF # rest) \<and>
   uint (ucast L :: uchar) = uint L mod 256 \<and>
   uint (ucast (drop_bit 8 L) :: uchar) = uint L div 256 mod 256"
  using byte_values [of L]
  by (simp add: set_length_def wr_def low_byte high_byte high_byte_arith word_sless_alt)

theorem set_length_bytes_witness:
  "set_length [9, 9, 9, 9] 0x7F = Some (1, [0x7F, 9, 9, 9]) \<and>
   set_length [9, 9, 9, 9] 0xFE = Some (2, [0x81, 0xFE, 9, 9]) \<and>
   set_length [9, 9, 9, 9] 0x1234 = Some (3, [0x82, 0x12, 0x34, 9]) \<and>
   set_length [9, 9, 9, 9] 0xFF = Some (3, [0x82, 0x00, 0xFF, 9])"
  using set_length_bytes [of "0x7F" 9 "[9, 9, 9]" 9 9]
    set_length_bytes [of "0xFE" 9 "[9, 9]" 9 9]
    set_length_bytes [of "0x1234" 9 "[9]" 9 9]
  by simp

section \<open>The length codec: decoder\<close>

text \<open>
  C3. For every buffer that holds the bytes the decoder reads: a first byte below \<open>0x81\<close>
  is the length itself, with 1 byte consumed; otherwise, when the low 7 bits of the first
  byte are 1, the length is the byte that follows, with 2 bytes consumed; otherwise, when
  the low 7 bits are 2, the length is the two bytes that follow read big-endian, with 3
  bytes consumed. The lengths are given as the values of the \<open>int\<close> stored in \<open>*len\<close>.
\<close>

theorem get_length_cases:
  "(b0 < 0x81 \<longrightarrow>
      (\<exists>v. get_length (b0 # rest) len = Some (1, v) \<and> sint v = uint b0)) \<and>
   (\<not> b0 < 0x81 \<and> b0 AND 0x7f = 1 \<longrightarrow>
      (\<exists>v. get_length (b0 # b1 # rest) len = Some (2, v) \<and> sint v = uint b1)) \<and>
   (\<not> b0 < 0x81 \<and> b0 AND 0x7f = 2 \<longrightarrow>
      (\<exists>v. get_length (b0 # b1 # b2 # rest) len = Some (3, v) \<and>
           sint v = 256 * uint b1 + uint b2))"
  by (simp add: get_length_def rd_def promote_sless promote_and1 promote_and2
      sint_promote sint_be16)

theorem get_length_cases_witness:
  "(\<exists>v. get_length [0x80] 7 = Some (1, v) \<and> sint v = 128) \<and>
   (\<exists>v. get_length [0x81, 0xFF] 7 = Some (2, v) \<and> sint v = 255) \<and>
   (\<exists>v. get_length [0x82, 0x12, 0x34] 7 = Some (3, v) \<and> sint v = 4660)"
  using get_length_cases [of "0x80" "[]" 7 0 0]
    get_length_cases [of "0x81" "[]" 7 "0xFF" 0]
    get_length_cases [of "0x82" "[]" 7 "0x12" "0x34"]
  by simp

text \<open>
  C4. For every buffer whose first byte is at least \<open>0x81\<close> and has low 7 bits above 2,
  the decoder returns 0 as the count of consumed bytes.
\<close>

theorem get_length_unsupported:
  "\<not> b0 < 0x81 \<Longrightarrow> 2 < b0 AND 0x7f \<Longrightarrow>
     \<exists>len'. get_length (b0 # rest) len = Some (0, len')"
  by (auto simp add: get_length_def rd_def promote_sless promote_and1 promote_and2)

theorem get_length_unsupported_witness:
  "\<not> (0x83::uchar) < 0x81 \<and> 2 < (0x83::uchar) AND 0x7f \<and>
   (\<exists>len'. get_length [0x83, 0x01, 0x02, 0x03] 7 = Some (0, len'))"
  using get_length_unsupported [of "0x83" "[0x01, 0x02, 0x03]" 7]
  by simp

text \<open>
  C10. On the failing branch (first byte at least \<open>0x81\<close>, low 7 bits above 2) the decoder
  returns 0 and \<open>*len\<close> holds what it held before the call; and whenever the decoder
  returns 0, \<open>*len\<close> is unchanged, so that \<open>*len\<close> is assigned on the three other
  branches only.
\<close>

theorem get_length_failure_keeps_len:
  "(\<not> b0 < 0x81 \<and> 2 < b0 AND 0x7f \<longrightarrow> get_length (b0 # rest) len = Some (0, len)) \<and>
   (get_length buffer len = Some (0, len') \<longrightarrow> len' = len)"
  by (auto simp add: get_length_def rd_def promote_sless promote_and1 promote_and2
      split: option.splits if_splits)

theorem get_length_failure_keeps_len_witness:
  "get_length [0xFF] 7 = Some (0, 7) \<and> get_length [0x84, 0x01] 42 = Some (0, 42)"
  using get_length_failure_keeps_len [of "0xFF" "[]" 7 "[0xFF]" 7]
    get_length_failure_keeps_len [of "0x84" "[0x01]" 42 "[0x84, 0x01]" 42]
  by simp

section \<open>The length codec: encoding, then decoding\<close>

text \<open>
  C1. For every length \<open>L\<close> from 0 to \<open>0xFFFF\<close> and every buffer with room for the
  encoding, the encoder returns \<open>n\<close>, which is 1 for \<open>L\<close> up to \<open>0x7F\<close>, 2 for \<open>L\<close> from
  \<open>0x80\<close> to \<open>0xFE\<close> and 3 for \<open>L\<close> from \<open>0xFF\<close> to \<open>0xFFFF\<close>, and the decoder,
  run on the buffer that the encoder wrote, returns the same \<open>n\<close> and the length \<open>L\<close>.
\<close>

theorem length_roundtrip:
  assumes "0 \<le>s L" and "L \<le>s 0xFFFF"
    and "n = (if L <s 0x80 then 1 else if L <s 0xFF then 2 else 3)"
    and "unat n \<le> length buffer"
  shows "\<exists>buffer'. set_length buffer L = Some (n, buffer') \<and>
           get_length buffer' len = Some (n, L)"
proof -
  consider (one) "L <s 0x80" | (two) "\<not> L <s 0x80" "L <s 0xFF" | (three) "\<not> L <s 0xFF"
    by blast
  then show ?thesis
  proof cases
    case one
    then have "L <s 0x100" by (simp add: word_sless_alt)
    with assms(1) have p: "(ucast (ucast L :: uchar) :: c_int) = L" by (rule promote_narrow)
    from one have "L <s 0x81" by (simp add: word_sless_alt)
    with one assms(3,4) p show ?thesis
      by (auto simp add: set_length_def get_length_def rd_def wr_def)
  next
    case two
    then have "L <s 0x100" by (simp add: word_sless_alt)
    with assms(1) have p: "(ucast (ucast L :: uchar) :: c_int) = L" by (rule promote_narrow)
    with two assms(3,4) show ?thesis
      by (auto simp add: set_length_def get_length_def rd_def wr_def)
  next
    case three
    from assms(2) have "sint L < 2 ^ 16" by (simp add: word_sle_eq)
    with assms(1) have "take_bit 16 L = L" by (rule c_int_less_2p) simp
    then have p: "push_bit 8 (ucast (ucast (signed_drop_bit 8 L AND 0xff) :: uchar) :: c_int)
       + ucast (ucast (L AND 0xff) :: uchar) = L" by (simp only: be16)
    from three have "\<not> L <s 0x80" by (simp add: word_sless_alt)
    with three assms(3,4) p show ?thesis
      by (auto simp add: set_length_def get_length_def rd_def wr_def)
  qed
qed

theorem length_roundtrip_witness:
  "(0::c_int) \<le>s 0x1234 \<and> (0x1234::c_int) \<le>s 0xFFFF \<and>
   (3::c_int) = (if (0x1234::c_int) <s 0x80 then 1 else if (0x1234::c_int) <s 0xFF then 2 else 3) \<and>
   unat (3::c_int) \<le> length [0, 0, 0 :: uchar] \<and>
   (\<exists>buffer'. set_length [0, 0, 0] 0x1234 = Some (3, buffer') \<and>
       get_length buffer' 7 = Some (3, 0x1234))"
  using length_roundtrip [of "0x1234" 3 "[0, 0, 0]" 7]
  by (simp add: word_sle_eq)

section \<open>The DigestInfo of a SHA-256 digest\<close>

text \<open>
  C5. For the hash kind SHA-256, \<open>get_hash\<close> stores the static table \<open>sha256oid\<close> and
  its size 19 through \<open>oid\<close> and \<open>oid_len\<close>; the DigestInfo of any digest is that table
  followed by the digest, so only the digest varies; and the DigestInfo of 32 zero bytes is
  the 51 bytes \<open>30 31 30 0D 06 09 60 86 48 01 65 03 04 02 01 05 00 04 20\<close> followed by the 32
  zero bytes.
\<close>

theorem digest_info_sha256:
  "get_hash hash_arg_SHA256 (Some oid) (Some oid_len) = Some (Some EVP_sha256, Some sha256oid, Some 19) \<and>
   digest_info hash_arg_SHA256 digest = Some (sha256oid @ digest) \<and>
   digest_info hash_arg_SHA256 (replicate 32 0) = Some
     [0x30, 0x31, 0x30, 0x0D, 0x06, 0x09, 0x60, 0x86, 0x48, 0x01, 0x65, 0x03, 0x04,
      0x02, 0x01, 0x05, 0x00, 0x04, 0x20,
      0, 0, 0, 0, 0, 0, 0, 0, 0, 0, 0, 0, 0, 0, 0, 0,
      0, 0, 0, 0, 0, 0, 0, 0, 0, 0, 0, 0, 0, 0, 0, 0] \<and>
   map_option length (digest_info hash_arg_SHA256 (replicate 32 0)) = Some 51"
  by (simp add: header_SHA256 zeros32 store_oid_def) (simp add: sha256oid_def)

section \<open>\<open>prepare_rsa_signature\<close> reports no failure\<close>

text \<open>
  C6. The function does not look at the hash kind's expected size: a digest of up to 1024
  bytes is copied, so the expected lengths (20 bytes for SHA-1, 32, 48 and 64 bytes for
  SHA-256, SHA-384 and SHA-512) are all covered. For every such call whose input holds
  \<open>in_len\<close> bytes and whose output buffer has room for what the encoder writes, the
  function returns \<open>true\<close>; the output buffer starts with the bytes that the encoder of
  OpenSSL writes for the DigestInfo of exactly the input's first \<open>in_len\<close> bytes, with the
  algorithm object of \<open>nid\<close> and a parameter of type NULL, and is unchanged behind them;
  and \<open>*out_len\<close> is the encoder's result. The flag does not depend on that result.
\<close>

theorem prepare_rsa_signature_succeeds:
  assumes "unat in_len \<le> 1024" and "unat in_len \<le> length in'"
    and "i2d_X509_SIG ssl
           \<lparr>algor_algorithm = OBJ_nid2obj ssl nid,
            algor_parameter_type = V_ASN1_NULL ssl,
            algor_parameter_value_ptr = None,
            digest_data = take (unat in_len) in',
            digest_length = in_len\<rparr> = (ret, written)"
    and "length written \<le> length out"
  shows "prepare_rsa_signature ssl in' in_len out nid
           = Some (True, written @ drop (length written) out, ret)"
  using assms by (simp add: prepare_rsa_signature_def Let_def)

text \<open>
  The witness runs the function with a stand-in for OpenSSL whose algorithm object is the
  header of the hash kind and whose encoder writes that header and the digest: a SHA-256
  digest of 32 bytes gives 51 bytes, a SHA-512 digest of 64 bytes gives 83 bytes, in an
  output buffer of 90 bytes.
\<close>

theorem prepare_rsa_signature_succeeds_witness:
  "(let ssl = \<lparr>OBJ_nid2obj = (\<lambda>nid. if nid = 672 then sha256oid else sha512oid),
               V_ASN1_NULL = 5,
               i2d_X509_SIG = (\<lambda>sig. (of_nat (length (algor_algorithm sig @ digest_data sig)),
                                    algor_algorithm sig @ digest_data sig))\<rparr>
    in unat (32 :: 32 word) \<le> 1024 \<and> unat (32 :: 32 word) \<le> length (replicate 32 (7::uchar)) \<and>
       length (sha256oid @ replicate 32 (7::uchar)) \<le> length (replicate 90 (0xAA::uchar)) \<and>
       prepare_rsa_signature ssl (replicate 32 7) 32 (replicate 90 0xAA) 672
         = Some (True, sha256oid @ replicate 32 7 @ replicate 39 0xAA, 51) \<and>
       unat (64 :: 32 word) \<le> 1024 \<and> unat (64 :: 32 word) \<le> length (replicate 64 (7::uchar)) \<and>
       length (sha512oid @ replicate 64 (7::uchar)) \<le> length (replicate 90 (0xAA::uchar)) \<and>
       prepare_rsa_signature ssl (replicate 64 7) 64 (replicate 90 0xAA) 674
         = Some (True, sha512oid @ replicate 64 7 @ replicate 7 0xAA, 83))"
  using prepare_rsa_signature_succeeds [of 32 "replicate 32 7"
      "\<lparr>OBJ_nid2obj = (\<lambda>nid. if nid = 672 then sha256oid else sha512oid),
        V_ASN1_NULL = 5,
        i2d_X509_SIG = (\<lambda>sig. (of_nat (length (algor_algorithm sig @ digest_data sig)),
                             algor_algorithm sig @ digest_data sig))\<rparr>"
      672 51 "sha256oid @ replicate 32 7" "replicate 90 0xAA"]
    prepare_rsa_signature_succeeds [of 64 "replicate 64 7"
      "\<lparr>OBJ_nid2obj = (\<lambda>nid. if nid = 672 then sha256oid else sha512oid),
        V_ASN1_NULL = 5,
        i2d_X509_SIG = (\<lambda>sig. (of_nat (length (algor_algorithm sig @ digest_data sig)),
                             algor_algorithm sig @ digest_data sig))\<rparr>"
      674 83 "sha512oid @ replicate 64 7" "replicate 90 0xAA"]
  by (simp add: Let_def sha256oid_def sha512oid_def)

section \<open>Selectors outside the enumerations\<close>

text \<open>
  C7. For every selector that is none of the supported enumerators (the \<open>__NULL\<close>
  enumerator and every value that no \<open>case\<close> names), \<open>get_hash\<close> returns \<open>NULL\<close> and
  leaves its output parameters alone, whether they are \<open>NULL\<close> or not, and
  \<open>get_piv_algorithm\<close>, \<open>get_object_id\<close>, \<open>get_pin_policy\<close> and \<open>get_touch_policy\<close>
  return 0; each function returns, with no undefined behaviour on the way.
\<close>

theorem unsupported_selectors:
  "(hash \<notin> {hash_arg_SHA1, hash_arg_SHA256, hash_arg_SHA384, hash_arg_SHA512} \<longrightarrow>
      get_hash hash oid oid_len = Some (None, oid, oid_len)) \<and>
   (algorithm \<notin> {algorithm_arg_RSA2048, algorithm_arg_RSA1024, algorithm_arg_ECCP256,
        algorithm_arg_ECCP384} \<longrightarrow>
      get_piv_algorithm k algorithm = 0) \<and>
   (slot \<notin> {slot_arg_9a, slot_arg_9c, slot_arg_9d, slot_arg_9e,
        slot_arg_82, slot_arg_83, slot_arg_84, slot_arg_85, slot_arg_86,
        slot_arg_87, slot_arg_88, slot_arg_89, slot_arg_8a, slot_arg_8b,
        slot_arg_8c, slot_arg_8d, slot_arg_8e, slot_arg_8f, slot_arg_90,
        slot_arg_91, slot_arg_92, slot_arg_93, slot_arg_94, slot_arg_95} \<longrightarrow>
      get_object_id k slot = 0) \<and>
   (pin \<notin> {pin_policy_arg_never, pin_policy_arg_once, pin_policy_arg_always} \<longrightarrow>
      get_pin_policy k pin = 0) \<and>
   (touch \<notin> {touch_policy_arg_never, touch_policy_arg_always} \<longrightarrow>
      get_touch_policy k touch = 0)"
proof (intro conjI impI)
  assume "hash \<notin> {hash_arg_SHA1, hash_arg_SHA256, hash_arg_SHA384, hash_arg_SHA512}"
  then show "get_hash hash oid oid_len = Some (None, oid, oid_len)"
    by (cases hash) simp_all
next
  assume "algorithm \<notin> {algorithm_arg_RSA2048, algorithm_arg_RSA1024, algorithm_arg_ECCP256,
        algorithm_arg_ECCP384}"
  then show "get_piv_algorithm k algorithm = 0"
    by (cases algorithm) simp_all
next
  assume "slot \<notin> {slot_arg_9a, slot_arg_9c, slot_arg_9d, slot_arg_9e,
        slot_arg_82, slot_arg_83, slot_arg_84, slot_arg_85, slot_arg_86,
        slot_arg_87, slot_arg_88, slot_arg_89, slot_arg_8a, slot_arg_8b,
        slot_arg_8c, slot_arg_8d, slot_arg_8e, slot_arg_8f, slot_arg_90,
        slot_arg_91, slot_arg_92, slot_arg_93, slot_arg_94, slot_arg_95}"
  then show "get_object_id k slot = 0"
    by (cases slot) simp_all
next
  assume "pin \<notin> {pin_policy_arg_never, pin_policy_arg_once, pin_policy_arg_always}"
  then show "get_pin_policy k pin = 0"
    by (cases pin) simp_all
next
  assume "touch \<notin> {touch_policy_arg_never, touch_policy_arg_always}"
  then show "get_touch_policy k touch = 0"
    by (cases touch) simp_all
qed

theorem unsupported_selectors_witness:
  "get_hash (hash_unlisted 1000) (Some []) (Some 0) = Some (None, Some [], Some 0) \<and>
   get_hash hash__NULL None None = Some (None, None, None) \<and>
   (\<forall>k. get_piv_algorithm k (algorithm_unlisted 1000) = 0 \<and>
        get_object_id k (slot_unlisted 1000) = 0 \<and>
        get_pin_policy k pin_policy__NULL = 0 \<and>
        get_touch_policy k (touch_policy_unlisted (- 2)) = 0)"
proof (intro conjI allI)
  fix k :: ykpiv_h
  note a = unsupported_selectors [of "hash_unlisted 1000" "Some []" "Some 0" "algorithm_unlisted 1000" k
      "slot_unlisted 1000" pin_policy__NULL "touch_policy_unlisted (- 2)"]
  note b = unsupported_selectors [of hash__NULL None None algorithm__NULL k slot__NULL
      pin_policy__NULL touch_policy__NULL]
  from a show "get_hash (hash_unlisted 1000) (Some []) (Some 0) = Some (None, Some [], Some 0)"
    by simp
  from b show "get_hash hash__NULL None None = Some (None, None, None)"
    by simp
  from a show "get_piv_algorithm k (algorithm_unlisted 1000) = 0" by simp
  from a show "get_object_id k (slot_unlisted 1000) = 0" by simp
  from a show "get_pin_policy k pin_policy__NULL = 0" by simp
  from a show "get_touch_policy k (touch_policy_unlisted (- 2)) = 0" by simp
qed

section \<open>The public key of an RSA key\<close>

text \<open>
  C8. For every key whose type is \<open>EVP_PKEY_RSA\<close> or \<open>EVP_PKEY_RSA2\<close>,
  \<open>do_get_public_key\<close> returns \<open>CKR_FUNCTION_FAILED\<close> and writes neither \<open>data\<close> nor
  \<open>*len\<close>.
\<close>

theorem do_get_public_key_rsa:
  "type key = EVP_PKEY_RSA \<or> type key = EVP_PKEY_RSA2 \<Longrightarrow>
     do_get_public_key EC_POINT_point2oct key data len = (CKR_FUNCTION_FAILED, data, len)"
  by (auto simp add: do_get_public_key_def)

theorem do_get_public_key_rsa_witness:
  "(type \<lparr>type = EVP_PKEY_RSA, pkey = ()\<rparr> = EVP_PKEY_RSA \<or>
    type \<lparr>type = EVP_PKEY_RSA, pkey = ()\<rparr> = EVP_PKEY_RSA2) \<and>
   do_get_public_key (\<lambda>key data len. (65, replicate 65 4)) \<lparr>type = EVP_PKEY_RSA, pkey = ()\<rparr> [0, 0] 2
     = (CKR_FUNCTION_FAILED, [0, 0], 2) \<and>
   do_get_public_key (\<lambda>key data len. (65, replicate 65 4)) \<lparr>type = EVP_PKEY_RSA2, pkey = ()\<rparr> [0, 0] 2
     = (CKR_FUNCTION_FAILED, [0, 0], 2)"
  using do_get_public_key_rsa [of "\<lparr>type = EVP_PKEY_RSA, pkey = ()\<rparr>" "\<lambda>key data len. (65, replicate 65 4)" "[0, 0]" 2]
    do_get_public_key_rsa [of "\<lparr>type = EVP_PKEY_RSA2, pkey = ()\<rparr>" "\<lambda>key data len. (65, replicate 65 4)" "[0, 0]" 2]
  by simp

section \<open>Encodings that the encoder does not produce\<close>

text \<open>
  C9, as stated: for every length from 0 to \<open>0xFF\<close> the encoder would emit a form shorter
  than the three-byte and the two-byte forms that the decoder accepts. It does not: the
  encoder's own form of \<open>0xFF\<close> is the three bytes \<open>82 00 FF\<close>, and its own form of
  \<open>0x80\<close> is the two bytes \<open>81 80\<close>; the counts 3 and 2 that it returns are not below
  3 and 2.
\<close>

theorem noncanonical_shorter_counterexample:
  "get_length [0x82, 0x00, 0xFF] 0 = Some (3, 0xFF) \<and>
   set_length [0x82, 0x00, 0xFF] 0xFF = Some (3, [0x82, 0x00, 0xFF]) \<and>
   \<not> (3::c_int) <s 3 \<and>
   get_length [0x81, 0x80] 0 = Some (2, 0x80) \<and>
   set_length [0x81, 0x80] 0x80 = Some (2, [0x81, 0x80]) \<and>
   \<not> (2::c_int) <s 2"
  by (simp add: get_length_def set_length_def rd_def wr_def)

text \<open>
  C9, amended. For every length \<open>L\<close> from 0 to \<open>0xFF\<close>, the decoder reads the three-byte
  form \<open>0x82\<close>, high byte, low byte as \<open>L\<close> with 3 bytes consumed, and the two-byte form
  \<open>0x81, L\<close> as \<open>L\<close> with 2 bytes consumed. The encoder emits fewer than 3 bytes for
  such \<open>L\<close> exactly when \<open>L\<close> is below \<open>0xFF\<close>, and fewer than 2 bytes exactly when \<open>L\<close>
  is below \<open>0x80\<close>. There is a buffer that the decoder accepts and that encoding the
  decoded length in place changes: encoding after decoding is not the identity.
  (Accepts: the decoder's count is not 0.)
\<close>

theorem noncanonical_accepted:
  assumes "0 \<le>s L" and "L \<le>s 0xFF"
  shows "get_length (0x82 # ucast (drop_bit 8 L) # ucast L # rest) len = Some (3, L) \<and>
         get_length (0x81 # ucast L # rest) len = Some (2, L) \<and>
         (\<exists>n buffer'. set_length (b0 # b1 # b2 # rest') L = Some (n, buffer') \<and>
            (n <s 3) = (L <s 0xFF) \<and> (n <s 2) = (L <s 0x80)) \<and>
         (\<exists>buffer n v m buffer'. get_length buffer len = Some (n, v) \<and> n \<noteq> 0 \<and>
            set_length buffer v = Some (m, buffer') \<and> buffer' \<noteq> buffer)"
proof -
  from assms(2) have "L <s 0x100" by (simp add: word_sle_eq word_sless_alt)
  with assms(1) have p: "(ucast (ucast L :: uchar) :: c_int) = L" by (rule promote_narrow)
  from assms have z: "(ucast (drop_bit 8 L) :: uchar) = 0" by (rule drop8_small)
  have three: "get_length (0x82 # ucast (drop_bit 8 L) # ucast L # rest) len = Some (3, L)"
    by (simp add: get_length_def rd_def z p)
  have two: "get_length (0x81 # ucast L # rest) len = Some (2, L)"
    by (simp add: get_length_def rd_def p)
  have enc: "\<exists>n buffer'. set_length (b0 # b1 # b2 # rest') L = Some (n, buffer') \<and>
            (n <s 3) = (L <s 0xFF) \<and> (n <s 2) = (L <s 0x80)"
    by (auto simp add: set_length_def wr_def word_sless_alt)
  have "get_length [0x81, 0x05] len = Some (2, 5) \<and> (2::c_int) \<noteq> 0 \<and>
        set_length [0x81, 0x05] 5 = Some (1, [0x05, 0x05]) \<and> [0x05, 0x05] \<noteq> [0x81, 0x05 :: uchar]"
    by (simp add: get_length_def set_length_def rd_def wr_def)
  then have re: "\<exists>buffer n v m buffer'. get_length buffer len = Some (n, v) \<and> n \<noteq> 0 \<and>
            set_length buffer v = Some (m, buffer') \<and> buffer' \<noteq> buffer"
    by blast
  from three two enc re show ?thesis by blast
qed

theorem noncanonical_accepted_witness:
  "(0::c_int) \<le>s 0x05 \<and> (0x05::c_int) \<le>s 0xFF \<and>
   get_length [0x82, 0x00, 0x05] 7 = Some (3, 0x05) \<and>
   get_length [0x81, 0x05] 7 = Some (2, 0x05)"
  using noncanonical_accepted [of "0x05" "[]" 7 0 0 0 "[]"]
  by (simp add: word_sle_eq)

end
